theory Spec2Isabelle
  imports Main "HOL-Library.Sublist"
begin

section \<open>Python string operations used by the report routine\<close>

text \<open>
  A Python \<open>str\<close> is modelled by \<^typ>\<open>string\<close>; a character stands for the code
  point of the same number (0 to 255). \<open>None\<close> is \<^term>\<open>None\<close> of an option type.
\<close>

text \<open>\<open>sub in s\<close> for strings: \<open>sub\<close> occurs in \<open>s\<close> as a contiguous block.\<close>

fun py_in :: "string \<Rightarrow> string \<Rightarrow> bool" where
  "py_in sub [] = (sub = [])"
| "py_in sub (c # cs) = (prefix sub (c # cs) \<or> py_in sub cs)"

text \<open>
  \<open>a, b = s.split(sep, 1)\<close>: the text before and after the leftmost occurrence of
  \<open>sep\<close>. \<^term>\<open>None\<close> is the \<open>ValueError\<close> of the unpacking when \<open>sep\<close> does not
  occur and \<open>split\<close> returns a single part. The routine only passes non-empty
  literals as \<open>sep\<close>.
\<close>

fun split_once :: "string \<Rightarrow> string \<Rightarrow> (string \<times> string) option" where
  "split_once sep [] = (if sep = [] then Some ([], []) else None)"
| "split_once sep (c # cs) =
     (if prefix sep (c # cs) then Some ([], drop (length sep) (c # cs))
      else (case split_once sep cs of
              None \<Rightarrow> None
            | Some (a, b) \<Rightarrow> Some (c # a, b)))"

lemma split_once_shorter:
  "split_once sep s = Some (a, b) \<Longrightarrow> sep \<noteq> [] \<Longrightarrow> length b < length s"
proof (induction s arbitrary: a)
  case Nil
  then show ?case by simp
next
  case (Cons c cs)
  show ?case
  proof (cases "prefix sep (c # cs)")
    case True
    with Cons.prems show ?thesis by (cases sep) auto
  next
    case False
    with Cons.prems obtain a' where "split_once sep cs = Some (a', b)"
      by (auto split: option.splits)
    from Cons.IH [OF this Cons.prems(2)] show ?thesis by simp
  qed
qed

text \<open>
  \<open>s.split(sep)\<close> without a limit: every non-overlapping occurrence of \<open>sep\<close>, from
  the left, separates two parts. Python raises \<open>ValueError\<close> on an empty separator;
  the guard keeps the function total there and is never taken by the routine.
\<close>

function py_split :: "string \<Rightarrow> string \<Rightarrow> string list" where
  "py_split sep s =
     (if sep = [] then [s]
      else (case split_once sep s of
              None \<Rightarrow> [s]
            | Some (a, b) \<Rightarrow> a # py_split sep b))"
  by pat_completeness auto
termination
  by (relation "measure (\<lambda>(sep, s). length s)") (auto dest: split_once_shorter)

declare py_split.simps [simp del]

text \<open>
  \<open>str.isspace\<close> on the code points below 256: tab, line feed, vertical tab, form
  feed, carriage return, the separators 0x1C to 0x1F, space, NEL and the no-break space.
\<close>

definition is_space :: "char \<Rightarrow> bool" where
  "is_space c = (c \<in> set [CHR 0x09, CHR 0x0A, CHR 0x0B, CHR 0x0C, CHR 0x0D,
                           CHR 0x1C, CHR 0x1D, CHR 0x1E, CHR 0x1F, CHR 0x20,
                           CHR 0x85, CHR 0xA0])"

text \<open>\<open>s.strip()\<close>: leading and trailing whitespace removed.\<close>

definition py_strip :: "string \<Rightarrow> string" where
  "py_strip s = rev (dropWhile is_space (rev (dropWhile is_space s)))"

text \<open>\<open>str(n)\<close> of a non-negative integer: its decimal digits, most significant first.\<close>

definition digit_char :: "nat \<Rightarrow> char" where
  "digit_char d = ''0123456789'' ! d"

function str_nat :: "nat \<Rightarrow> string" where
  "str_nat n = (if n < 10 then [digit_char n] else str_nat (n div 10) @ [digit_char (n mod 10)])"
  by pat_completeness auto
termination
  by (relation "measure id") auto

declare str_nat.simps [simp del]

text \<open>A value placed in an f-string: \<open>None\<close> is rendered as the text \<open>None\<close>.\<close>

fun fmt :: "string option \<Rightarrow> string" where
  "fmt None = ''None''"
| "fmt (Some s) = s"

text \<open>\<open>sep.join(xs)\<close>.\<close>

fun join :: "string \<Rightarrow> string list \<Rightarrow> string" where
  "join sep [] = []"
| "join sep [x] = x"
| "join sep (x # y # ys) = x @ sep @ join sep (y # ys)"

section \<open>Aggregation of the log lines (the loop of \<open>send_daily_report\<close>)\<close>

text \<open>
  The five accumulators of the loop. \<open>interactions_per_user\<close> is a
  \<open>defaultdict(int)\<close>, whose iteration order (the order in which its keys were first
  inserted) shows in the report, so it is an association list; \<open>user_names\<close> and
  \<open>log_data\<close> are only looked up by key and are maps.
\<close>

record report =
  total_interactions :: nat
  unique_users :: "string set"
  interactions_per_user :: "(string \<times> nat) list"
  user_names :: "string \<rightharpoonup> string"
  detailed_logs :: "string list"

definition init_report :: report where
  "init_report = \<lparr>total_interactions = 0, unique_users = {}, interactions_per_user = [],
                  user_names = Map.empty, detailed_logs = []\<rparr>"

text \<open>
  \<open>d[k] += 1\<close> on a \<open>defaultdict(int)\<close>: an existing key keeps its position, a new
  key is appended with the count 1.
\<close>

fun incr :: "(string \<times> nat) list \<Rightarrow> string \<Rightarrow> (string \<times> nat) list" where
  "incr [] k = [(k, 1)]"
| "incr ((k', c) # kvs) k = (if k' = k then (k', c + 1) # kvs else (k', c) # incr kvs k)"

text \<open>
  One payload field: \<open>if '=' in part: key, value = part.split('=', 1);
  log_data[key.strip()] = value.strip()\<close>. Under the guard the split has two parts
  (lemma \<open>py_in_split_once\<close> below), so the \<^term>\<open>None\<close> branch is never taken.
\<close>

definition set_field :: "(string \<rightharpoonup> string) \<Rightarrow> string \<Rightarrow> (string \<rightharpoonup> string)" where
  "set_field log_data part =
     (if py_in ''='' part then
        (case split_once ''='' part of
           None \<Rightarrow> log_data
         | Some (key, value) \<Rightarrow> log_data(py_strip key \<mapsto> py_strip value))
      else log_data)"

text \<open>
  The \<open>try\<close> block and the field loop: \<open>timestamp, data = log.strip().split(" | ", 1)\<close>,
  then one \<open>set_field\<close> for each part of \<open>data.split(", ")\<close>. \<^term>\<open>None\<close> is the
  \<open>except ValueError: continue\<close> path.
\<close>

definition parse_line :: "string \<Rightarrow> (string \<times> (string \<rightharpoonup> string)) option" where
  "parse_line log =
     (case split_once '' | '' (py_strip log) of
        None \<Rightarrow> None
      | Some (timestamp, data) \<Rightarrow>
          Some (timestamp, foldl set_field Map.empty (py_split '', '' data)))"

text \<open>The body of \<open>if user_id:\<close>, for a \<open>user_id\<close> that is a non-empty string.\<close>

definition record_interaction ::
  "report \<Rightarrow> string \<Rightarrow> string \<Rightarrow> string option \<Rightarrow> string option \<Rightarrow> report" where
  "record_interaction st timestamp user_id user_name url =
     st\<lparr>unique_users := insert user_id (unique_users st),
        interactions_per_user := incr (interactions_per_user st) user_id,
        user_names :=
          (case user_name of
             None \<Rightarrow> user_names st
           | Some n \<Rightarrow> if n = [] then user_names st else (user_names st)(user_id \<mapsto> n)),
        detailed_logs := detailed_logs st @
          [timestamp @ '' | '' @ fmt user_name @ '' ('' @ user_id @ '') -> '' @ fmt url]\<rparr>"

text \<open>One iteration of \<open>for log in log_lines\<close>.\<close>

definition process_line :: "report \<Rightarrow> string \<Rightarrow> report" where
  "process_line st log =
     (if \<not> py_in ''UserID='' log then st
      else
        let st1 = st\<lparr>total_interactions := total_interactions st + 1\<rparr> in
        (case parse_line log of
           None \<Rightarrow> st1
         | Some (timestamp, log_data) \<Rightarrow>
             (case log_data ''UserID'' of
                None \<Rightarrow> st1
              | Some user_id \<Rightarrow>
                  if user_id = [] then st1
                  else record_interaction st1 timestamp user_id
                         (log_data ''Username'') (log_data ''URL''))))"

definition aggregate :: "string list \<Rightarrow> report" where
  "aggregate log_lines = foldl process_line init_report log_lines"

text \<open>
  The record for which the body of \<open>if user_id:\<close> runs on a line (timestamp, user id,
  user name, URL), or \<^term>\<open>None\<close> when the line is skipped before it: the guards of
  \<open>process_line\<close>, collected to state what was accepted.
\<close>

definition accepted_record ::
  "string \<Rightarrow> (string \<times> string \<times> string option \<times> string option) option" where
  "accepted_record log =
     (if py_in ''UserID='' log then
        (case parse_line log of
           None \<Rightarrow> None
         | Some (timestamp, log_data) \<Rightarrow>
             (case log_data ''UserID'' of
                None \<Rightarrow> None
              | Some user_id \<Rightarrow>
                  if user_id = [] then None
                  else Some (timestamp, user_id, log_data ''Username'', log_data ''URL'')))
      else None)"

definition accepted_records ::
  "string list \<Rightarrow> (string \<times> string \<times> string option \<times> string option) list" where
  "accepted_records log_lines = List.map_filter accepted_record log_lines"

definition accepted_ids :: "string list \<Rightarrow> string list" where
  "accepted_ids log_lines =
     map (\<lambda>(timestamp, user_id, user_name, url). user_id) (accepted_records log_lines)"

subsection \<open>Notions of the specification\<close>

text \<open>The distinct elements of a list in the order of their first occurrence.\<close>

fun first_seen :: "'a list \<Rightarrow> 'a list" where
  "first_seen [] = []"
| "first_seen (x # xs) = x # removeAll x (first_seen xs)"

text \<open>
  The last non-empty user name seen for \<open>uid\<close> in a sequence of accepted records, in
  input order; \<^term>\<open>None\<close> when no record of \<open>uid\<close> carries a non-empty name.
\<close>

definition nonempty_names ::
  "string \<Rightarrow> (string \<times> string \<times> string option \<times> string option) list \<Rightarrow> string list" where
  "nonempty_names uid recs =
     concat (map (\<lambda>(timestamp, user_id, user_name, url).
                    case user_name of
                      None \<Rightarrow> []
                    | Some n \<Rightarrow> if user_id = uid \<and> n \<noteq> [] then [n] else []) recs)"

definition last_nonempty_name ::
  "string \<Rightarrow> (string \<times> string \<times> string option \<times> string option) list \<Rightarrow> string option" where
  "last_nonempty_name uid recs =
     (if nonempty_names uid recs = [] then None else Some (last (nonempty_names uid recs)))"

text \<open>The number that a string of decimal digits denotes.\<close>

definition decimal_value :: "string \<Rightarrow> nat" where
  "decimal_value s = foldl (\<lambda>acc c. 10 * acc + (of_char c - 48)) 0 s"

section \<open>Rendering (the report construction of \<open>send_daily_report\<close>)\<close>

text \<open>
  One pass of \<open>for user_id, count in interactions_per_user.items()\<close>: the bullet line
  of a user, with \<open>user_names.get(user_id, 'N/A')\<close> as the name.
\<close>

definition user_line :: "(string \<rightharpoonup> string) \<Rightarrow> string \<times> nat \<Rightarrow> string" where
  "user_line names item =
     (case item of (user_id, count) \<Rightarrow>
        ''* **User:** '' @ (case names user_id of None \<Rightarrow> ''N/A'' | Some name \<Rightarrow> name)
        @ '' (ID: '' @ [CHR 0x60] @ user_id @ [CHR 0x60] @ '') - **Interactions:** ''
        @ str_nat count @ ''\<newline>'')"

text \<open>
  \<open>formatted_report\<close>, from the accumulators and the date text
  \<open>datetime.now().strftime('%Y-%m-%d')\<close>.
\<close>

definition render :: "report \<Rightarrow> string \<Rightarrow> string" where
  "render r today =
     ''# Daily User Interaction Report ('' @ today @ '')\<newline>\<newline>''
     @ ''**Total Interactions:** '' @ str_nat (total_interactions r) @ ''\<newline>''
     @ ''**Unique Users:** '' @ str_nat (card (unique_users r)) @ ''\<newline>\<newline>''
     @ ''### Interactions Per User\<newline>''
     @ concat (map (user_line (user_names r)) (interactions_per_user r))
     @ ''\<newline>### Detailed Log\<newline>''
     @ [CHR 0x60, CHR 0x60, CHR 0x60] @ ''\<newline>'' @ join ''\<newline>'' (detailed_logs r)
     @ ''\<newline>'' @ [CHR 0x60, CHR 0x60, CHR 0x60] @ ''\<newline>''"

section \<open>The reporting function\<close>

definition LOG_FILE :: string where
  "LOG_FILE = ''reports.log''"

definition NTFY_TOPIC :: string where
  "NTFY_TOPIC = ''telegram_bot_reports''"

definition get_report_title :: "string \<Rightarrow> string" where
  "get_report_title today_date = ''Telegram Bot Report - '' @ today_date"

text \<open>
  \<open>f.readlines()\<close> on the text of a file: the lines in order, each with its
  terminating line feed (the text is taken after newline translation).
\<close>

fun readlines :: "string \<Rightarrow> string list" where
  "readlines [] = []"
| "readlines (c # cs) =
     (if c = CHR 0x0A then [c] # readlines cs
      else (case readlines cs of
              [] \<Rightarrow> [[c]]
            | l # ls \<Rightarrow> (c # l) # ls))"

text \<open>
  The exceptions that the file and network operations of the function raise, each
  with its message \<open>str(e)\<close>. All are subclasses of \<open>Exception\<close>, which is what the
  handler of \<open>send_daily_report\<close> catches.
\<close>

datatype py_exception =
    OSError string
  | UnicodeDecodeError string
  | RequestException string

fun exception_str :: "py_exception \<Rightarrow> string" where
  "exception_str (OSError m) = m"
| "exception_str (UnicodeDecodeError m) = m"
| "exception_str (RequestException m) = m"

record response =
  status_code :: nat
  resp_text :: string

record put_request =
  put_url :: string
  put_data :: string
  put_headers :: "(string \<times> string) list"

text \<open>
  What the surroundings decide in one run: the date texts of the three
  \<open>datetime.now()\<close> calls, whether each file operation raises, and what
  \<open>requests.put\<close> returns or raises.
\<close>

record env =
  now_report :: string
  now_filename :: string
  now_title :: string
  read_log_error :: "py_exception option"
  write_report_error :: "py_exception option"
  open_report_error :: "py_exception option"
  put_result :: "py_exception + response"
  clear_log_error :: "py_exception option"
  remove_error :: "py_exception option"

text \<open>The file and network operations a run attempts, in order.\<close>

datatype io_event =
    ReadFile string
  | WriteFile string string
  | HttpPut put_request
  | RemoveFile string

datatype log_level = INFO | WARNING | ERROR

text \<open>
  The way a run leaves the function, which itself returns \<open>None\<close> on each of them:
  the two early \<open>return\<close>s, the end of the body after a 200 response or after another
  status, and the \<open>except\<close> handler.
\<close>

datatype exit_path =
    SkippedNoFile
  | SkippedNoLines
  | Sent
  | NotSent
  | Caught py_exception

text \<open>
  A finished run: \<open>outcome\<close> is \<^term>\<open>Inl e\<close> when the exception \<open>e\<close> leaves the code
  in question and \<^term>\<open>Inr p\<close> when it returns along \<open>p\<close>; \<open>files\<close> is the file system
  afterwards (a map from path to content), \<open>events\<close> the operations attempted and
  \<open>messages\<close> what went to the root logger.
\<close>

record run =
  outcome :: "py_exception + exit_path"
  files :: "string \<rightharpoonup> string"
  events :: "io_event list"
  messages :: "(log_level \<times> string) list"

text \<open>\<open>with open(LOG_FILE, 'r') as f: log_lines = f.readlines()\<close>.\<close>

definition read_log :: "env \<Rightarrow> (string \<rightharpoonup> string) \<Rightarrow> py_exception + string list" where
  "read_log e fs =
     (case read_log_error e of
        Some ex \<Rightarrow> Inl ex
      | None \<Rightarrow>
          (case fs LOG_FILE of
             None \<Rightarrow> Inl (OSError ''No such file or directory'')
           | Some content \<Rightarrow> Inr (readlines content)))"

text \<open>\<open>os.remove(report_filename)\<close> and the end of the body.\<close>

definition remove_report ::
  "env \<Rightarrow> (string \<rightharpoonup> string) \<Rightarrow> io_event list \<Rightarrow> (log_level \<times> string) list \<Rightarrow>
     string \<Rightarrow> exit_path \<Rightarrow> run" where
  "remove_report e fs evs msgs report_filename p =
     (case remove_error e of
        Some ex \<Rightarrow>
          \<lparr>outcome = Inl ex, files = fs, events = evs @ [RemoveFile report_filename],
           messages = msgs\<rparr>
      | None \<Rightarrow>
          \<lparr>outcome = Inr p, files = fs(report_filename := None),
           events = evs @ [RemoveFile report_filename], messages = msgs\<rparr>)"

text \<open>
  \<open>if response.status_code == 200: ... else: ...\<close>: the log file is cleared by
  \<open>open(LOG_FILE, 'w')\<close> and \<open>f.write("")\<close> in the first branch only.
\<close>

definition after_response ::
  "env \<Rightarrow> (string \<rightharpoonup> string) \<Rightarrow> io_event list \<Rightarrow> string \<Rightarrow> response \<Rightarrow> run" where
  "after_response e fs evs report_filename resp =
     (if status_code resp = 200 then
        (case clear_log_error e of
           Some ex \<Rightarrow>
             \<lparr>outcome = Inl ex, files = fs, events = evs @ [WriteFile LOG_FILE []],
              messages = [(INFO, ''Daily report sent to ntfy successfully.'')]\<rparr>
         | None \<Rightarrow>
             remove_report e (fs(LOG_FILE \<mapsto> [])) (evs @ [WriteFile LOG_FILE []])
               [(INFO, ''Daily report sent to ntfy successfully.'')] report_filename Sent)
      else
        remove_report e fs evs
          [(ERROR, ''Failed to send report to ntfy. Status code: '' @ str_nat (status_code resp)),
           (ERROR, ''Response content: '' @ resp_text resp)]
          report_filename NotSent)"

text \<open>
  Saving the report and sending it: \<open>open(report_filename, "w")\<close>,
  \<open>open(report_filename, 'rb')\<close> and \<open>requests.put\<close>. An operation that raises
  leaves the file system as it was before it; the call of \<open>requests.put\<close> is
  recorded whether it returns or raises.
\<close>

definition deliver :: "env \<Rightarrow> (string \<rightharpoonup> string) \<Rightarrow> string \<Rightarrow> run" where
  "deliver e fs formatted_report =
     (let report_filename = ''daily_report_'' @ now_filename e @ ''.md'';
          evs1 = [ReadFile LOG_FILE, WriteFile report_filename formatted_report]
      in case write_report_error e of
           Some ex \<Rightarrow> \<lparr>outcome = Inl ex, files = fs, events = evs1, messages = []\<rparr>
         | None \<Rightarrow>
             let fs1 = fs(report_filename \<mapsto> formatted_report);
                 evs2 = evs1 @ [ReadFile report_filename]
             in case open_report_error e of
                  Some ex \<Rightarrow> \<lparr>outcome = Inl ex, files = fs1, events = evs2, messages = []\<rparr>
                | None \<Rightarrow>
                    let evs3 = evs2 @
                          [HttpPut \<lparr>put_url = ''https://ntfy.sh/'' @ NTFY_TOPIC,
                                    put_data = formatted_report,
                                    put_headers =
                                      [(''Filename'', get_report_title (now_title e))]\<rparr>]
                    in case put_result e of
                         Inl ex \<Rightarrow>
                           \<lparr>outcome = Inl ex, files = fs1, events = evs3, messages = []\<rparr>
                       | Inr resp \<Rightarrow> after_response e fs1 evs3 report_filename resp)"

text \<open>The body of the \<open>try\<close> block.\<close>

definition report_body :: "env \<Rightarrow> (string \<rightharpoonup> string) \<Rightarrow> run" where
  "report_body e fs =
     (case fs LOG_FILE of
        None \<Rightarrow>
          \<lparr>outcome = Inr SkippedNoFile, files = fs, events = [],
           messages = [(WARNING, ''Report file does not exist, skipping daily report.'')]\<rparr>
      | Some content \<Rightarrow>
          (case read_log e fs of
             Inl ex \<Rightarrow>
               \<lparr>outcome = Inl ex, files = fs, events = [ReadFile LOG_FILE], messages = []\<rparr>
           | Inr log_lines \<Rightarrow>
               if log_lines = [] then
                 \<lparr>outcome = Inr SkippedNoLines, files = fs, events = [ReadFile LOG_FILE],
                  messages =
                    [(INFO, ''No user interactions to report, skipping daily report.'')]\<rparr>
               else deliver e fs (render (aggregate log_lines) (now_report e))))"

text \<open>
  \<open>send_daily_report\<close>: the body under \<open>try\<close>, and \<open>except Exception as e\<close> with its
  \<open>logging.error\<close>.
\<close>

definition send_daily_report :: "env \<Rightarrow> (string \<rightharpoonup> string) \<Rightarrow> run" where
  "send_daily_report e fs =
     (let r = report_body e fs
      in case outcome r of
           Inl ex \<Rightarrow>
             r\<lparr>outcome := Inr (Caught ex),
               messages := messages r @
                 [(ERROR, ''Error while sending daily report: '' @ exception_str ex)]\<rparr>
         | Inr p \<Rightarrow> r)"

subsection \<open>Example runs\<close>

text \<open>
  Surroundings in which every file operation succeeds and the channel answers 200,
  answers 500, or cannot be reached; and a log file holding one well-formed line.
\<close>

definition env_200 :: env where
  "env_200 = \<lparr>now_report = ''2025-09-04'', now_filename = ''2025-09-04'',
              now_title = ''2025-09-04'', read_log_error = None, write_report_error = None,
              open_report_error = None,
              put_result = Inr \<lparr>status_code = 200, resp_text = ''ok''\<rparr>,
              clear_log_error = None, remove_error = None\<rparr>"

definition env_500 :: env where
  "env_500 = env_200\<lparr>put_result := Inr \<lparr>status_code = 500, resp_text = ''error''\<rparr>\<rparr>"

definition env_unreachable :: env where
  "env_unreachable = env_200\<lparr>put_result := Inl (RequestException ''Connection refused'')\<rparr>"

definition log_one :: "string \<rightharpoonup> string" where
  "log_one = [LOG_FILE \<mapsto>
     ''2025-09-04 15:10:00 | UserID=42, Username=Bob, URL=https://instagram.com/reels/abc\<newline>'']"

section \<open>Facts about the string operations and the aggregation\<close>

text \<open>The line of \<open>detailed_logs\<close> that an accepted record adds.\<close>

definition detail_line :: "string \<times> string \<times> string option \<times> string option \<Rightarrow> string" where
  "detail_line r = (case r of (timestamp, user_id, user_name, url) \<Rightarrow>
      timestamp @ '' | '' @ fmt user_name @ '' ('' @ user_id @ '') -> '' @ fmt url)"

lemma py_in_split_once: "py_in sep s \<Longrightarrow> split_once sep s \<noteq> None"
  by (induction s) (auto split: option.splits)

lemma split_once_py_in: "split_once sep s \<noteq> None \<Longrightarrow> py_in sep s"
  by (induction s) (auto split: option.splits if_splits)

lemma process_line_accepted:
  "process_line st log =
     (case accepted_record log of
        None \<Rightarrow> if py_in ''UserID='' log
                then st\<lparr>total_interactions := total_interactions st + 1\<rparr> else st
      | Some (timestamp, user_id, user_name, url) \<Rightarrow>
          record_interaction (st\<lparr>total_interactions := total_interactions st + 1\<rparr>)
            timestamp user_id user_name url)"
  by (simp add: process_line_def accepted_record_def Let_def split: option.splits)

lemma aggregate_snoc: "aggregate (ls @ [l]) = process_line (aggregate ls) l"
  by (simp add: aggregate_def)

lemma aggregate_Nil: "aggregate [] = init_report"
  by (simp add: aggregate_def)

lemma accepted_records_Nil: "accepted_records [] = []"
  by (simp add: accepted_records_def map_filter_def)

lemma accepted_records_snoc:
  "accepted_records (ls @ [l]) =
     accepted_records ls @ (case accepted_record l of None \<Rightarrow> [] | Some r \<Rightarrow> [r])"
  by (simp add: accepted_records_def map_filter_def split: option.splits)

lemma accepted_ids_snoc:
  "accepted_ids (ls @ [l]) =
     accepted_ids ls @ (case accepted_record l of None \<Rightarrow> [] | Some (t, u, n, x) \<Rightarrow> [u])"
  by (simp add: accepted_ids_def accepted_records_snoc split: option.splits)

lemma set_first_seen: "set (first_seen xs) = set xs"
  by (induction xs) auto

lemma distinct_first_seen: "distinct (first_seen xs)"
  by (induction xs) (auto simp: distinct_removeAll)

lemma first_seen_snoc:
  "first_seen (xs @ [x]) = (if x \<in> set xs then first_seen xs else first_seen xs @ [x])"
  by (induction xs) (auto simp: set_first_seen)

lemma incr_counts:
  "distinct us \<Longrightarrow>
   incr (map (\<lambda>u. (u, f u)) us) k =
     (if k \<in> set us then map (\<lambda>u. (u, if u = k then f u + 1 else f u)) us
      else map (\<lambda>u. (u, f u)) us @ [(k, 1)])"
  by (induction us) auto

lemma interactions_per_user_aggregate:
  "interactions_per_user (aggregate ls) =
     map (\<lambda>u. (u, count_list (accepted_ids ls) u)) (first_seen (accepted_ids ls))"
proof (induction ls rule: rev_induct)
  case Nil
  show ?case by (simp add: aggregate_Nil init_report_def accepted_ids_def accepted_records_Nil)
next
  case (snoc l ls)
  show ?case
  proof (cases "accepted_record l")
    case None
    then show ?thesis
      using snoc by (simp add: aggregate_snoc process_line_accepted accepted_ids_snoc)
  next
    case (Some r)
    obtain t u n x where r: "r = (t, u, n, x)" by (cases r)
    have "incr (interactions_per_user (aggregate ls)) u =
            map (\<lambda>v. (v, count_list (accepted_ids ls @ [u]) v)) (first_seen (accepted_ids ls @ [u]))"
      unfolding snoc
      by (subst incr_counts) (auto simp: distinct_first_seen set_first_seen first_seen_snoc count_list_0_iff)
    then show ?thesis
      using Some r
      by (simp add: aggregate_snoc process_line_accepted accepted_ids_snoc record_interaction_def)
  qed
qed

lemma unique_users_aggregate: "unique_users (aggregate ls) = set (accepted_ids ls)"
proof (induction ls rule: rev_induct)
  case Nil
  show ?case by (simp add: aggregate_Nil init_report_def accepted_ids_def accepted_records_Nil)
next
  case (snoc l ls)
  then show ?case
    by (auto simp: aggregate_snoc process_line_accepted accepted_ids_snoc record_interaction_def
             split: option.splits)
qed

lemma total_interactions_aggregate:
  "total_interactions (aggregate ls) = length (filter (py_in ''UserID='') ls)"
proof (induction ls rule: rev_induct)
  case Nil
  show ?case by (simp add: aggregate_Nil init_report_def)
next
  case (snoc l ls)
  then show ?case
    by (auto simp: aggregate_snoc process_line_accepted record_interaction_def accepted_record_def
             split: option.splits)
qed

lemma detailed_logs_aggregate:
  "detailed_logs (aggregate ls) = map detail_line (accepted_records ls)"
proof (induction ls rule: rev_induct)
  case Nil
  show ?case by (simp add: aggregate_Nil init_report_def accepted_records_Nil)
next
  case (snoc l ls)
  then show ?case
    by (auto simp: aggregate_snoc process_line_accepted accepted_records_snoc record_interaction_def detail_line_def
             split: option.splits)
qed

lemma nonempty_names_snoc:
  "nonempty_names uid (recs @ [(t, u, n, x)]) =
     nonempty_names uid recs @
       (case n of None \<Rightarrow> [] | Some s \<Rightarrow> if u = uid \<and> s \<noteq> [] then [s] else [])"
  by (simp add: nonempty_names_def)

lemma user_names_aggregate:
  "user_names (aggregate ls) uid = last_nonempty_name uid (accepted_records ls)"
proof (induction ls rule: rev_induct)
  case Nil
  show ?case
    by (simp add: aggregate_Nil init_report_def accepted_records_Nil last_nonempty_name_def
                  nonempty_names_def)
next
  case (snoc l ls)
  show ?case
  proof (cases "accepted_record l")
    case None
    then show ?thesis
      using snoc by (simp add: aggregate_snoc process_line_accepted accepted_records_snoc)
  next
    case (Some r)
    obtain t u n x where r: "r = (t, u, n, x)" by (cases r)
    show ?thesis
      using Some r snoc
      by (auto simp: aggregate_snoc process_line_accepted accepted_records_snoc
                     record_interaction_def last_nonempty_name_def nonempty_names_snoc
               split: option.splits)
  qed
qed


lemma sum_list_incr: "sum_list (map snd (incr kvs k)) = sum_list (map snd kvs) + 1"
  by (induction kvs k rule: incr.induct) auto

lemma sum_counts_accepted:
  "sum_list (map snd (interactions_per_user (aggregate ls))) = length (accepted_records ls)"
proof (induction ls rule: rev_induct)
  case Nil
  show ?case by (simp add: aggregate_Nil init_report_def accepted_records_Nil)
next
  case (snoc l ls)
  then show ?case
    by (auto simp: aggregate_snoc process_line_accepted accepted_records_snoc
                   record_interaction_def sum_list_incr
             split: option.splits)
qed

lemma process_line_no_marker:
  "\<not> py_in ''UserID='' log \<Longrightarrow> process_line st log = st"
  by (simp add: process_line_def)

lemma process_line_unsplit:
  "py_in ''UserID='' log \<Longrightarrow> split_once '' | '' (py_strip log) = None \<Longrightarrow>
   process_line st log = st\<lparr>total_interactions := total_interactions st + 1\<rparr>"
  by (simp add: process_line_def parse_line_def)

lemma digit_char_cases:
  "d < 10 \<Longrightarrow> digit_char d \<in> set ''0123456789'' \<and> of_char (digit_char d) - 48 = d"
proof -
  assume "d < 10"
  then have "d = 0 \<or> d = 1 \<or> d = 2 \<or> d = 3 \<or> d = 4 \<or> d = 5 \<or> d = 6 \<or> d = 7 \<or> d = 8 \<or> d = 9"
    by arith
  then show ?thesis
    by (elim disjE) (simp_all add: digit_char_def)
qed

lemma str_nat_digits: "set (str_nat n) \<subseteq> set ''0123456789''"
proof (induction n rule: str_nat.induct)
  case (1 n)
  show ?case
  proof (cases "n < 10")
    case True
    then show ?thesis
      using digit_char_cases [of n] by (subst str_nat.simps) simp
  next
    case False
    have "n mod 10 < 10" by simp
    then show ?thesis
      using False 1 digit_char_cases [of "n mod 10"] by (subst str_nat.simps) simp
  qed
qed

lemma decimal_value_str_nat: "decimal_value (str_nat n) = n"
proof (induction n rule: str_nat.induct)
  case (1 n)
  show ?case
  proof (cases "n < 10")
    case True
    then show ?thesis
      using digit_char_cases [of n] by (subst str_nat.simps) (simp add: decimal_value_def)
  next
    case False
    have "n mod 10 < 10" by simp
    then show ?thesis
      using False 1 digit_char_cases [of "n mod 10"]
      by (subst str_nat.simps) (simp add: decimal_value_def)
  qed
qed

lemma join_concat:
  "join sep xs = (case xs of [] \<Rightarrow> [] | l # ls \<Rightarrow> l @ concat (map (\<lambda>x. sep @ x) ls))"
  by (induction sep xs rule: join.induct) simp_all

lemma digit_char_positive:
  "0 < d \<Longrightarrow> d < 10 \<Longrightarrow> digit_char d \<in> set ''123456789''"
proof -
  assume "0 < d" and "d < 10"
  then have "d = 1 \<or> d = 2 \<or> d = 3 \<or> d = 4 \<or> d = 5 \<or> d = 6 \<or> d = 7 \<or> d = 8 \<or> d = 9"
    by arith
  then show ?thesis
    by (elim disjE) (simp_all add: digit_char_def)
qed

lemma str_nat_zero: "str_nat 0 = ''0''"
  by (subst str_nat.simps) (simp add: digit_char_def)

lemma str_nat_leading_digit:
  "0 < n \<Longrightarrow> str_nat n \<noteq> [] \<and> hd (str_nat n) \<in> set ''123456789''"
proof (induction n rule: str_nat.induct)
  case (1 n)
  show ?case
  proof (cases "n < 10")
    case True
    with "1.prems" show ?thesis
      using digit_char_positive [of n] by (subst (1 2) str_nat.simps) simp
  next
    case False
    then have "0 < n div 10" by simp
    with "1.IH" False have "str_nat (n div 10) \<noteq> [] \<and> hd (str_nat (n div 10)) \<in> set ''123456789''"
      by simp
    with False show ?thesis
      by (subst (1 2) str_nat.simps) simp
  qed
qed

lemma per_user_order_example:
  "interactions_per_user (aggregate [''t | UserID=u1'', ''t | UserID=u2'', ''t | UserID=u2'']) =
     [(''u1'', 1), (''u2'', 2)] \<and>
   interactions_per_user (aggregate [''t | UserID=u2'', ''t | UserID=u2'', ''t | UserID=u1'']) =
     [(''u2'', 2), (''u1'', 1)]"
  by code_simp

section \<open>The claims about aggregation\<close>

text \<open>
  C2. Claim: a line without the marker \<open>UserID=\<close>, and a line with the marker whose
  split on \<open>" | "\<close> does not give two parts, leave \<open>total_interactions\<close>,
  \<open>unique_users\<close>, \<open>interactions_per_user\<close>, \<open>user_names\<close> and \<open>detailed_logs\<close>
  unchanged. The code skips the first kind untouched (\<open>process_line_no_marker\<close>), but
  it adds 1 to \<open>total_interactions\<close> before it tries the split
  (\<open>process_line_unsplit\<close>): the line \<open>UserID=5\<close> has the marker, fails the split and
  takes the count from 0 to 1.
\<close>

theorem unsplit_marker_line_counted:
  "py_in ''UserID='' ''UserID=5'' \<and>
   split_once '' | '' (py_strip ''UserID=5'') = None \<and>
   total_interactions init_report = 0 \<and>
   total_interactions (process_line init_report ''UserID=5'') = 1"
  by code_simp

text \<open>
  C3. Claim: after aggregation the per-user counts sum to \<open>total_interactions\<close>. The
  sum is the number of accepted records (\<open>sum_counts_accepted\<close>) while the total is the
  number of lines with the marker (\<open>total_interactions_aggregate\<close>): on a log of one
  well-formed line followed by the line \<open>UserID=5\<close> the total is 2 and the sum is 1.
\<close>

theorem per_user_sum_below_total:
  "total_interactions
     (aggregate [''2025-09-04 15:10:00 | UserID=42, Username=Bob, URL=https://instagram.com/reels/abc\<newline>'',
                 ''UserID=5\<newline>'']) = 2 \<and>
   sum_list (map snd (interactions_per_user
     (aggregate [''2025-09-04 15:10:00 | UserID=42, Username=Bob, URL=https://instagram.com/reels/abc\<newline>'',
                 ''UserID=5\<newline>'']))) = 1"
  by code_simp

text \<open>
  C9. After aggregation of any sequence of lines the keys of \<open>interactions_per_user\<close>
  are exactly the members of \<open>unique_users\<close>, without repetition: a user id has a
  count if and only if it is in \<open>unique_users\<close>, and the number of per-user entries is
  the number of unique users.
\<close>

theorem per_user_keys_are_unique_users:
  "set (map fst (interactions_per_user (aggregate log_lines))) = unique_users (aggregate log_lines) \<and>
   distinct (map fst (interactions_per_user (aggregate log_lines))) \<and>
   length (interactions_per_user (aggregate log_lines)) = card (unique_users (aggregate log_lines)) \<and>
   ((\<exists>c. (uid, c) \<in> set (interactions_per_user (aggregate log_lines))) =
      (uid \<in> unique_users (aggregate log_lines)))"
proof -
  let ?ids = "accepted_ids log_lines"
  have keys: "map fst (interactions_per_user (aggregate log_lines)) = first_seen ?ids"
    by (simp add: interactions_per_user_aggregate comp_def)
  have len: "length (interactions_per_user (aggregate log_lines)) = card (unique_users (aggregate log_lines))"
    using distinct_card [OF distinct_first_seen, of ?ids]
    by (simp add: interactions_per_user_aggregate unique_users_aggregate set_first_seen)
  have mem: "(\<exists>c. (uid, c) \<in> set (interactions_per_user (aggregate log_lines))) =
      (uid \<in> unique_users (aggregate log_lines))"
    by (auto simp: interactions_per_user_aggregate unique_users_aggregate set_first_seen)
  show ?thesis
    using keys len mem by (simp add: distinct_first_seen set_first_seen unique_users_aggregate)
qed

theorem per_user_keys_are_unique_users_witness:
  "set (map fst (interactions_per_user (aggregate [''t | UserID=42'', ''t | UserID=7'', ''t | UserID=42'']))) = {''42'', ''7''} \<and>
   length (interactions_per_user (aggregate [''t | UserID=42'', ''t | UserID=7'', ''t | UserID=42''])) = 2"
proof -
  have u: "unique_users (aggregate [''t | UserID=42'', ''t | UserID=7'', ''t | UserID=42'']) = {''42'', ''7''}"
    by code_simp
  have c: "card {''42'', ''7''} = (2::nat)"
    by simp
  show ?thesis
    using per_user_keys_are_unique_users [of "[''t | UserID=42'', ''t | UserID=7'', ''t | UserID=42'']" "''42''"]
    by (simp only: u c)
qed

text \<open>
  C6. After aggregation, \<open>user_names\<close> at a user id is the last non-empty user name
  among the accepted records of that id, in input order (no entry when there is none);
  an empty or missing name does not overwrite an earlier one. The three lines that
  give the records (u1, Alice), (u1, empty), (u1, Bob) end with Bob.
\<close>

theorem user_names_last_nonempty:
  "user_names (aggregate log_lines) uid = last_nonempty_name uid (accepted_records log_lines) \<and>
   accepted_records [''t1 | UserID=u1, Username=Alice'', ''t2 | UserID=u1, Username='',
                     ''t3 | UserID=u1, Username=Bob''] =
     [(''t1'', ''u1'', Some ''Alice'', None), (''t2'', ''u1'', Some [], None),
      (''t3'', ''u1'', Some ''Bob'', None)] \<and>
   user_names (aggregate [''t1 | UserID=u1, Username=Alice'', ''t2 | UserID=u1, Username='',
                          ''t3 | UserID=u1, Username=Bob'']) ''u1'' = Some ''Bob''"
proof -
  have ex1: "accepted_records [''t1 | UserID=u1, Username=Alice'', ''t2 | UserID=u1, Username='',
                     ''t3 | UserID=u1, Username=Bob''] =
     [(''t1'', ''u1'', Some ''Alice'', None), (''t2'', ''u1'', Some [], None),
      (''t3'', ''u1'', Some ''Bob'', None)]"
    by code_simp
  have ex2: "user_names (aggregate [''t1 | UserID=u1, Username=Alice'', ''t2 | UserID=u1, Username='',
                          ''t3 | UserID=u1, Username=Bob'']) ''u1'' = Some ''Bob''"
    by code_simp
  show ?thesis
    using ex1 ex2 by (simp only: user_names_aggregate simp_thms)
qed

text \<open>
  C7. For every log and date text the rendered document is, in this order: the
  title with the date, the total and the number of unique users in decimal, one
  bullet line for each user in the order in which the ids were first accepted (with
  the user's count, whatever the counts are), and, between two fences of three
  backquotes, the lines of \<open>detailed_logs\<close> in order with one line feed between each
  two of them (nothing for no lines), which is what \<open>join\<close> returns. The number of
  bullet lines is the number of unique users. A count is printed as its decimal
  numeral: digits only, denoting the count, \<open>0\<close> for zero and no leading zero
  otherwise. The document of a log of three lines by two users is written out.
\<close>

theorem render_document:
  "render (aggregate log_lines) today =
     ''# Daily User Interaction Report ('' @ today @ '')\<newline>\<newline>''
     @ ''**Total Interactions:** '' @ str_nat (total_interactions (aggregate log_lines)) @ ''\<newline>''
     @ ''**Unique Users:** '' @ str_nat (length (first_seen (accepted_ids log_lines)))
     @ ''\<newline>\<newline>''
     @ ''### Interactions Per User\<newline>''
     @ concat (map (\<lambda>uid.
          ''* **User:** ''
          @ (case user_names (aggregate log_lines) uid of None \<Rightarrow> ''N/A'' | Some name \<Rightarrow> name)
          @ '' (ID: '' @ [CHR 0x60] @ uid @ [CHR 0x60] @ '') - **Interactions:** ''
          @ str_nat (count_list (accepted_ids log_lines) uid) @ ''\<newline>'')
        (first_seen (accepted_ids log_lines)))
     @ ''\<newline>### Detailed Log\<newline>''
     @ [CHR 0x60, CHR 0x60, CHR 0x60] @ ''\<newline>''
     @ (case detailed_logs (aggregate log_lines) of
          [] \<Rightarrow> []
        | l # ls \<Rightarrow> l @ concat (map (\<lambda>x. ''\<newline>'' @ x) ls))
     @ ''\<newline>'' @ [CHR 0x60, CHR 0x60, CHR 0x60] @ ''\<newline>'' \<and>
   join sep xs = (case xs of [] \<Rightarrow> [] | l # ls \<Rightarrow> l @ concat (map (\<lambda>x. sep @ x) ls)) \<and>
   length (first_seen (accepted_ids log_lines)) = card (unique_users (aggregate log_lines)) \<and>
   decimal_value (str_nat n) = n \<and> set (str_nat n) \<subseteq> set ''0123456789'' \<and>
   str_nat 0 = ''0'' \<and> hd (str_nat (Suc n)) \<in> set ''123456789'' \<and>
   render (aggregate [''t1 | UserID=u1, Username=Al, URL=a\<newline>'',
                      ''t2 | UserID=u2, URL=b\<newline>'',
                      ''t3 | UserID=u2, URL=c\<newline>'']) ''2025-09-04'' =
     ''# Daily User Interaction Report (2025-09-04)\<newline>\<newline>''
     @ ''**Total Interactions:** 3\<newline>''
     @ ''**Unique Users:** 2\<newline>\<newline>''
     @ ''### Interactions Per User\<newline>''
     @ ''* **User:** Al (ID: '' @ [CHR 0x60] @ ''u1'' @ [CHR 0x60] @ '') - **Interactions:** 1\<newline>''
     @ ''* **User:** N/A (ID: '' @ [CHR 0x60] @ ''u2'' @ [CHR 0x60] @ '') - **Interactions:** 2\<newline>''
     @ ''\<newline>### Detailed Log\<newline>''
     @ [CHR 0x60, CHR 0x60, CHR 0x60] @ ''\<newline>''
     @ ''t1 | Al (u1) -> a\<newline>t2 | None (u2) -> b\<newline>t3 | None (u2) -> c''
     @ ''\<newline>'' @ [CHR 0x60, CHR 0x60, CHR 0x60] @ ''\<newline>''"
proof -
  let ?ids = "accepted_ids log_lines"
  have card: "card (unique_users (aggregate log_lines)) = length (first_seen ?ids)"
    using distinct_card [OF distinct_first_seen, of ?ids]
    by (simp add: unique_users_aggregate set_first_seen)
  have doc: "render (aggregate log_lines) today =
     ''# Daily User Interaction Report ('' @ today @ '')\<newline>\<newline>''
     @ ''**Total Interactions:** '' @ str_nat (total_interactions (aggregate log_lines)) @ ''\<newline>''
     @ ''**Unique Users:** '' @ str_nat (length (first_seen ?ids))
     @ ''\<newline>\<newline>''
     @ ''### Interactions Per User\<newline>''
     @ concat (map (\<lambda>uid.
          ''* **User:** ''
          @ (case user_names (aggregate log_lines) uid of None \<Rightarrow> ''N/A'' | Some name \<Rightarrow> name)
          @ '' (ID: '' @ [CHR 0x60] @ uid @ [CHR 0x60] @ '') - **Interactions:** ''
          @ str_nat (count_list ?ids uid) @ ''\<newline>'')
        (first_seen ?ids))
     @ ''\<newline>### Detailed Log\<newline>''
     @ [CHR 0x60, CHR 0x60, CHR 0x60] @ ''\<newline>''
     @ (case detailed_logs (aggregate log_lines) of
          [] \<Rightarrow> []
        | l # ls \<Rightarrow> l @ concat (map (\<lambda>x. ''\<newline>'' @ x) ls))
     @ ''\<newline>'' @ [CHR 0x60, CHR 0x60, CHR 0x60] @ ''\<newline>''"
    unfolding render_def card interactions_per_user_aggregate
      join_concat [of "''\<newline>''" "detailed_logs (aggregate log_lines)"]
    by (simp add: user_line_def comp_def)
  have lead: "hd (str_nat (Suc n)) \<in> set ''123456789''"
    using str_nat_leading_digit [of "Suc n"] by simp
  have ex: "render (aggregate [''t1 | UserID=u1, Username=Al, URL=a\<newline>'',
                      ''t2 | UserID=u2, URL=b\<newline>'',
                      ''t3 | UserID=u2, URL=c\<newline>'']) ''2025-09-04'' =
     ''# Daily User Interaction Report (2025-09-04)\<newline>\<newline>''
     @ ''**Total Interactions:** 3\<newline>''
     @ ''**Unique Users:** 2\<newline>\<newline>''
     @ ''### Interactions Per User\<newline>''
     @ ''* **User:** Al (ID: '' @ [CHR 0x60] @ ''u1'' @ [CHR 0x60] @ '') - **Interactions:** 1\<newline>''
     @ ''* **User:** N/A (ID: '' @ [CHR 0x60] @ ''u2'' @ [CHR 0x60] @ '') - **Interactions:** 2\<newline>''
     @ ''\<newline>### Detailed Log\<newline>''
     @ [CHR 0x60, CHR 0x60, CHR 0x60] @ ''\<newline>''
     @ ''t1 | Al (u1) -> a\<newline>t2 | None (u2) -> b\<newline>t3 | None (u2) -> c''
     @ ''\<newline>'' @ [CHR 0x60, CHR 0x60, CHR 0x60] @ ''\<newline>''"
    by code_simp
  show ?thesis
    using doc card decimal_value_str_nat [of n] str_nat_digits [of n] str_nat_zero lead ex
      join_concat [of sep xs]
    by (simp only: simp_thms)
qed

text \<open>
  C10. A line that is accepted (marker present, split in two, non-empty \<open>UserID\<close>)
  is counted and appended to \<open>detailed_logs\<close> also when its payload has no
  \<open>Username\<close> or no \<open>URL\<close> field; the missing field appears as the text \<open>None\<close> in
  its position of the appended line.
\<close>

theorem missing_field_rendered_None:
  assumes "py_in ''UserID='' log"
    and "parse_line log = Some (timestamp, log_data)"
    and "log_data ''UserID'' = Some user_id"
    and "user_id \<noteq> []"
  shows "(log_data ''Username'' = None \<longrightarrow>
            detailed_logs (process_line st log) =
              detailed_logs st @
                [timestamp @ '' | None ('' @ user_id @ '') -> '' @ fmt (log_data ''URL'')]) \<and>
         (log_data ''URL'' = None \<longrightarrow>
            detailed_logs (process_line st log) =
              detailed_logs st @
                [timestamp @ '' | '' @ fmt (log_data ''Username'') @ '' ('' @ user_id @ '') -> None'']) \<and>
         total_interactions (process_line st log) = total_interactions st + 1 \<and>
         unique_users (process_line st log) = insert user_id (unique_users st) \<and>
         interactions_per_user (process_line st log) = incr (interactions_per_user st) user_id"
  using assms by (simp add: process_line_def record_interaction_def Let_def)

theorem missing_field_rendered_None_witness:
  "detailed_logs (process_line init_report ''2025-09-04 15:10:00 | UserID=42\<newline>'') =
     [''2025-09-04 15:10:00 | None (42) -> None''] \<and>
   total_interactions (process_line init_report ''2025-09-04 15:10:00 | UserID=42\<newline>'') = 1 \<and>
   interactions_per_user (process_line init_report ''2025-09-04 15:10:00 | UserID=42\<newline>'') =
     [(''42'', 1)]"
proof -
  have h1: "py_in ''UserID='' ''2025-09-04 15:10:00 | UserID=42\<newline>''"
    by code_simp
  have s: "split_once '' | '' (py_strip ''2025-09-04 15:10:00 | UserID=42\<newline>'') =
             Some (''2025-09-04 15:10:00'', ''UserID=42'')"
    by code_simp
  have p: "py_split '', '' ''UserID=42'' = [''UserID=42'']"
    by code_simp
  have f: "set_field Map.empty ''UserID=42'' = [''UserID'' \<mapsto> ''42'']"
    by (simp add: set_field_def py_strip_def is_space_def)
  have h2: "parse_line ''2025-09-04 15:10:00 | UserID=42\<newline>'' =
              Some (''2025-09-04 15:10:00'', [''UserID'' \<mapsto> ''42''])"
    by (simp add: parse_line_def s p f)
  have h3: "[''UserID'' \<mapsto> ''42''] ''UserID'' = Some ''42''"
    by simp
  have h4: "''42'' \<noteq> []"
    by simp
  show ?thesis
    using missing_field_rendered_None [OF h1 h2 h3 h4, of init_report]
    by (simp add: init_report_def)
qed

section \<open>Facts about the reporting function\<close>

lemma report_filename_not_LOG_FILE: "''daily_report_'' @ d @ ''.md'' \<noteq> LOG_FILE"
  by (simp add: LOG_FILE_def)

lemma events_deliver:
  "events (deliver e fs b) =
     [ReadFile LOG_FILE, WriteFile (''daily_report_'' @ now_filename e @ ''.md'') b] @
     (case write_report_error e of
        Some ex \<Rightarrow> []
      | None \<Rightarrow>
          ReadFile (''daily_report_'' @ now_filename e @ ''.md'') #
          (case open_report_error e of
             Some ex \<Rightarrow> []
           | None \<Rightarrow>
               HttpPut \<lparr>put_url = ''https://ntfy.sh/'' @ NTFY_TOPIC, put_data = b,
                        put_headers = [(''Filename'', get_report_title (now_title e))]\<rparr> #
               (case put_result e of
                  Inl ex \<Rightarrow> []
                | Inr resp \<Rightarrow>
                    if status_code resp = 200 then
                      WriteFile LOG_FILE [] #
                      (case clear_log_error e of
                         Some ex \<Rightarrow> []
                       | None \<Rightarrow> [RemoveFile (''daily_report_'' @ now_filename e @ ''.md'')])
                    else [RemoveFile (''daily_report_'' @ now_filename e @ ''.md'')])))"
  by (simp add: deliver_def after_response_def remove_report_def Let_def
           split: option.splits sum.splits)

lemma log_after_deliver:
  "files (deliver e fs b) LOG_FILE =
     (if write_report_error e = None \<and> open_report_error e = None \<and> clear_log_error e = None \<and>
         (case put_result e of Inl ex \<Rightarrow> False | Inr resp \<Rightarrow> status_code resp = 200)
      then Some [] else fs LOG_FILE)"
  using report_filename_not_LOG_FILE [of "now_filename e"]
  by (auto simp: deliver_def after_response_def remove_report_def Let_def
           split: option.splits sum.splits)

lemma outcome_deliver:
  "outcome (deliver e fs b) =
     (case write_report_error e of
        Some ex \<Rightarrow> Inl ex
      | None \<Rightarrow>
          (case open_report_error e of
             Some ex \<Rightarrow> Inl ex
           | None \<Rightarrow>
               (case put_result e of
                  Inl ex \<Rightarrow> Inl ex
                | Inr resp \<Rightarrow>
                    if status_code resp = 200 then
                      (case clear_log_error e of
                         Some ex \<Rightarrow> Inl ex
                       | None \<Rightarrow>
                           (case remove_error e of Some ex \<Rightarrow> Inl ex | None \<Rightarrow> Inr Sent))
                    else (case remove_error e of Some ex \<Rightarrow> Inl ex | None \<Rightarrow> Inr NotSent))))"
  by (simp add: deliver_def after_response_def remove_report_def Let_def
           split: option.splits sum.splits)

lemma outcome_send_daily_report:
  "outcome (send_daily_report e fs) =
     (case outcome (report_body e fs) of Inl ex \<Rightarrow> Inr (Caught ex) | Inr p \<Rightarrow> Inr p)"
  by (simp add: send_daily_report_def Let_def split: sum.splits)

lemma events_send_daily_report: "events (send_daily_report e fs) = events (report_body e fs)"
  by (simp add: send_daily_report_def Let_def split: sum.splits)

lemma files_send_daily_report: "files (send_daily_report e fs) = files (report_body e fs)"
  by (simp add: send_daily_report_def Let_def split: sum.splits)

lemma report_body_cases:
  "report_body e fs =
     (if fs LOG_FILE = None then
        \<lparr>outcome = Inr SkippedNoFile, files = fs, events = [],
         messages = [(WARNING, ''Report file does not exist, skipping daily report.'')]\<rparr>
      else case read_log e fs of
        Inl ex \<Rightarrow> \<lparr>outcome = Inl ex, files = fs, events = [ReadFile LOG_FILE], messages = []\<rparr>
      | Inr log_lines \<Rightarrow>
          if log_lines = [] then
            \<lparr>outcome = Inr SkippedNoLines, files = fs, events = [ReadFile LOG_FILE],
             messages = [(INFO, ''No user interactions to report, skipping daily report.'')]\<rparr>
          else deliver e fs (render (aggregate log_lines) (now_report e)))"
  by (simp add: report_body_def split: option.splits)

lemma readlines_eq_Nil: "(readlines s = []) = (s = [])"
  by (cases s) (auto split: list.splits)

lemma read_log_one:
  "read_log env_200 log_one =
     Inr [''2025-09-04 15:10:00 | UserID=42, Username=Bob, URL=https://instagram.com/reels/abc\<newline>'']"
  by (simp add: read_log_def env_200_def log_one_def)

section \<open>The claims about the reporting function\<close>

text \<open>
  C1. In every run in which \<open>requests.put\<close> returns a status other than 200 the
  content of the log file is unchanged and no clearing write is attempted. The log
  file changes, or a clearing write is attempted, only in a run in which the request
  was made and answered 200. In such a run the clearing write is the operation
  directly after the request, and when it does not raise the log file is empty
  afterwards.
\<close>

theorem truncation_only_after_200:
  "(\<forall>resp. put_result e = Inr resp \<and> status_code resp \<noteq> 200 \<longrightarrow>
      files (send_daily_report e fs) LOG_FILE = fs LOG_FILE \<and>
      WriteFile LOG_FILE [] \<notin> set (events (send_daily_report e fs))) \<and>
   (files (send_daily_report e fs) LOG_FILE \<noteq> fs LOG_FILE \<or>
    WriteFile LOG_FILE [] \<in> set (events (send_daily_report e fs)) \<longrightarrow>
      (\<exists>resp req. put_result e = Inr resp \<and> status_code resp = 200 \<and>
         HttpPut req \<in> set (events (send_daily_report e fs)))) \<and>
   (\<forall>resp req. put_result e = Inr resp \<and> status_code resp = 200 \<and>
      HttpPut req \<in> set (events (send_daily_report e fs)) \<longrightarrow>
        (\<exists>pre post. events (send_daily_report e fs) =
           pre @ [HttpPut req, WriteFile LOG_FILE []] @ post) \<and>
        (clear_log_error e = None \<longrightarrow> files (send_daily_report e fs) LOG_FILE = Some []))"
proof (intro conjI allI impI)
  fix resp
  assume a: "put_result e = Inr resp \<and> status_code resp \<noteq> 200"
  show "files (send_daily_report e fs) LOG_FILE = fs LOG_FILE"
    using a by (simp add: files_send_daily_report report_body_cases log_after_deliver split: sum.splits)
  show "WriteFile LOG_FILE [] \<notin> set (events (send_daily_report e fs))"
    using a report_filename_not_LOG_FILE [of "now_filename e"]
    by (auto simp: events_send_daily_report report_body_cases events_deliver
             split: sum.splits option.splits)
next
  assume b: "files (send_daily_report e fs) LOG_FILE \<noteq> fs LOG_FILE \<or>
    WriteFile LOG_FILE [] \<in> set (events (send_daily_report e fs))"
  then show "\<exists>resp req. put_result e = Inr resp \<and> status_code resp = 200 \<and>
         HttpPut req \<in> set (events (send_daily_report e fs))"
    using report_filename_not_LOG_FILE [of "now_filename e"]
    by (auto simp: events_send_daily_report files_send_daily_report report_body_cases
                   events_deliver log_after_deliver
             split: sum.splits option.splits if_splits)
next
  fix resp req
  assume c: "put_result e = Inr resp \<and> status_code resp = 200 \<and>
      HttpPut req \<in> set (events (send_daily_report e fs))"
  then obtain log_lines where rd: "fs LOG_FILE \<noteq> None" "read_log e fs = Inr log_lines" "log_lines \<noteq> []"
    and w: "write_report_error e = None" "open_report_error e = None"
    by (auto simp: events_send_daily_report report_body_cases events_deliver
             split: sum.splits option.splits if_splits)
  let ?b = "render (aggregate log_lines) (now_report e)"
  let ?fn = "''daily_report_'' @ now_filename e @ ''.md''"
  let ?req = "\<lparr>put_url = ''https://ntfy.sh/'' @ NTFY_TOPIC, put_data = ?b,
                put_headers = [(''Filename'', get_report_title (now_title e))]\<rparr>"
  have ev: "events (send_daily_report e fs) =
          [ReadFile LOG_FILE, WriteFile ?fn ?b, ReadFile ?fn] @ [HttpPut ?req, WriteFile LOG_FILE []] @
          (case clear_log_error e of Some ex \<Rightarrow> [] | None \<Rightarrow> [RemoveFile ?fn])"
    using c rd w by (simp add: events_send_daily_report report_body_cases events_deliver)
  have "req = ?req"
    using c unfolding ev by (auto split: option.splits)
  with ev show "\<exists>pre post. events (send_daily_report e fs) =
           pre @ [HttpPut req, WriteFile LOG_FILE []] @ post"
    by blast
  show "files (send_daily_report e fs) LOG_FILE = Some []" if "clear_log_error e = None"
    using c rd w that by (simp add: files_send_daily_report report_body_cases log_after_deliver)
qed

theorem truncation_only_after_200_witness:
  "files (send_daily_report env_500 log_one) LOG_FILE = log_one LOG_FILE \<and>
   WriteFile LOG_FILE [] \<notin> set (events (send_daily_report env_500 log_one)) \<and>
   files (send_daily_report env_200 log_one) LOG_FILE = Some []"
proof -
  have r5: "read_log env_500 log_one = read_log env_200 log_one"
    by (simp add: read_log_def env_500_def)
  have p5: "put_result env_500 = Inr \<lparr>status_code = 500, resp_text = ''error''\<rparr> \<and>
            status_code \<lparr>status_code = 500, resp_text = ''error''\<rparr> \<noteq> 200"
    by (simp add: env_500_def)
  have p2: "put_result env_200 = Inr \<lparr>status_code = 200, resp_text = ''ok''\<rparr> \<and>
            status_code \<lparr>status_code = 200, resp_text = ''ok''\<rparr> = 200 \<and>
            HttpPut \<lparr>put_url = ''https://ntfy.sh/'' @ NTFY_TOPIC,
                     put_data = render (aggregate
                       [''2025-09-04 15:10:00 | UserID=42, Username=Bob, URL=https://instagram.com/reels/abc\<newline>''])
                       ''2025-09-04'',
                     put_headers = [(''Filename'', get_report_title ''2025-09-04'')]\<rparr>
              \<in> set (events (send_daily_report env_200 log_one))"
    by (simp add: events_send_daily_report report_body_cases read_log_one events_deliver)
       (simp add: env_200_def log_one_def)
  have c2: "clear_log_error env_200 = None"
    by (simp add: env_200_def)
  show ?thesis
    using truncation_only_after_200 [of env_500 log_one] truncation_only_after_200 [of env_200 log_one]
      p5 p2 c2
    by blast
qed

text \<open>
  C5. In every run in which the log file is absent, or is read as no lines, the
  function leaves by one of its two early returns; the file system is unchanged, the
  only operation attempted is at most the read of the log file, and no request is
  made.
\<close>

theorem skipped_without_action:
  assumes "fs LOG_FILE = None \<or> read_log e fs = Inr []"
  shows "(outcome (send_daily_report e fs) = Inr SkippedNoFile \<or>
          outcome (send_daily_report e fs) = Inr SkippedNoLines) \<and>
         files (send_daily_report e fs) = fs \<and>
         set (events (send_daily_report e fs)) \<subseteq> {ReadFile LOG_FILE} \<and>
         (\<forall>req. HttpPut req \<notin> set (events (send_daily_report e fs)))"
  using assms
  by (auto simp: send_daily_report_def report_body_cases Let_def)

theorem skipped_without_action_witness:
  "outcome (send_daily_report env_200 [LOG_FILE \<mapsto> []]) = Inr SkippedNoLines \<and>
   files (send_daily_report env_200 [LOG_FILE \<mapsto> []]) = [LOG_FILE \<mapsto> []] \<and>
   outcome (send_daily_report env_200 Map.empty) = Inr SkippedNoFile \<and>
   files (send_daily_report env_200 Map.empty) = Map.empty"
proof -
  have h1: "[LOG_FILE \<mapsto> []] LOG_FILE = None \<or> read_log env_200 [LOG_FILE \<mapsto> []] = Inr []"
    by (simp add: read_log_def env_200_def)
  have h2: "Map.empty LOG_FILE = None \<or> read_log env_200 Map.empty = Inr []"
    by simp
  have n1: "outcome (send_daily_report env_200 [LOG_FILE \<mapsto> []]) \<noteq> Inr SkippedNoFile"
    by (simp add: send_daily_report_def report_body_cases Let_def read_log_def env_200_def)
  have n2: "outcome (send_daily_report env_200 Map.empty) \<noteq> Inr SkippedNoLines"
    by (simp add: send_daily_report_def report_body_cases Let_def)
  show ?thesis
    using skipped_without_action [OF h1] skipped_without_action [OF h2] n1 n2
    by blast
qed

text \<open>
  C4. Claim: when the log file is non-empty but aggregation accepts no record
  (\<open>total_interactions\<close> is 0), the run is skipped and no request is made. The code
  has no test of the aggregated counts: on the log \<open>garbage\<close> (one line without the
  marker) with a channel that answers 200, the empty report is written, sent and the
  log cleared.
\<close>

theorem no_accepted_entries_still_sent:
  "readlines ''garbage\<newline>'' = [''garbage\<newline>''] \<and>
   total_interactions (aggregate [''garbage\<newline>'']) = 0 \<and>
   accepted_records [''garbage\<newline>''] = [] \<and>
   outcome (send_daily_report env_200 [LOG_FILE \<mapsto> ''garbage\<newline>'']) = Inr Sent \<and>
   events (send_daily_report env_200 [LOG_FILE \<mapsto> ''garbage\<newline>'']) =
     [ReadFile LOG_FILE,
      WriteFile ''daily_report_2025-09-04.md'' (render (aggregate [''garbage\<newline>'']) ''2025-09-04''),
      ReadFile ''daily_report_2025-09-04.md'',
      HttpPut \<lparr>put_url = ''https://ntfy.sh/telegram_bot_reports'',
               put_data = render (aggregate [''garbage\<newline>'']) ''2025-09-04'',
               put_headers = [(''Filename'', ''Telegram Bot Report - 2025-09-04'')]\<rparr>,
      WriteFile LOG_FILE [],
      RemoveFile ''daily_report_2025-09-04.md'']"
proof -
  have a: "readlines ''garbage\<newline>'' = [''garbage\<newline>'']"
    by simp
  have b: "total_interactions (aggregate [''garbage\<newline>'']) = 0"
    by code_simp
  have c: "accepted_records [''garbage\<newline>''] = []"
    by code_simp
  have rd: "read_log env_200 [LOG_FILE \<mapsto> ''garbage\<newline>''] = Inr [''garbage\<newline>'']"
    by (simp add: read_log_def env_200_def)
  have d: "outcome (send_daily_report env_200 [LOG_FILE \<mapsto> ''garbage\<newline>'']) = Inr Sent"
    by (simp add: outcome_send_daily_report report_body_cases rd outcome_deliver)
       (simp add: env_200_def)
  have e: "events (send_daily_report env_200 [LOG_FILE \<mapsto> ''garbage\<newline>'']) =
     [ReadFile LOG_FILE,
      WriteFile ''daily_report_2025-09-04.md'' (render (aggregate [''garbage\<newline>'']) ''2025-09-04''),
      ReadFile ''daily_report_2025-09-04.md'',
      HttpPut \<lparr>put_url = ''https://ntfy.sh/telegram_bot_reports'',
               put_data = render (aggregate [''garbage\<newline>'']) ''2025-09-04'',
               put_headers = [(''Filename'', ''Telegram Bot Report - 2025-09-04'')]\<rparr>,
      WriteFile LOG_FILE [],
      RemoveFile ''daily_report_2025-09-04.md'']"
    by (simp add: events_send_daily_report report_body_cases rd events_deliver)
       (simp add: env_200_def NTFY_TOPIC_def get_report_title_def)
  show ?thesis
    using a b c d e by (simp only: simp_thms)
qed

text \<open>
  C4, amended. In every run in which the log file exists and is read as at least
  one line, the function takes neither early return, whatever aggregation accepts
  (also when \<open>total_interactions\<close> is 0); when the report file can be written and
  opened again, the request carrying the rendered report is made.
\<close>

theorem nonempty_log_never_skipped:
  assumes "fs LOG_FILE \<noteq> None"
    and "read_log e fs = Inr log_lines"
    and "log_lines \<noteq> []"
  shows "outcome (send_daily_report e fs) \<noteq> Inr SkippedNoFile \<and>
         outcome (send_daily_report e fs) \<noteq> Inr SkippedNoLines \<and>
         (write_report_error e = None \<and> open_report_error e = None \<longrightarrow>
            HttpPut \<lparr>put_url = ''https://ntfy.sh/'' @ NTFY_TOPIC,
                     put_data = render (aggregate log_lines) (now_report e),
                     put_headers = [(''Filename'', get_report_title (now_title e))]\<rparr>
              \<in> set (events (send_daily_report e fs)))"
proof -
  have "outcome (deliver e fs b) \<noteq> Inr SkippedNoFile \<and> outcome (deliver e fs b) \<noteq> Inr SkippedNoLines" for b
    by (simp add: deliver_def after_response_def remove_report_def Let_def
             split: option.splits sum.splits)
  then have "outcome (send_daily_report e fs) \<noteq> Inr SkippedNoFile \<and>
         outcome (send_daily_report e fs) \<noteq> Inr SkippedNoLines"
    using assms by (auto simp: outcome_send_daily_report report_body_cases split: sum.splits)
  then show ?thesis
    using assms by (auto simp: events_send_daily_report report_body_cases events_deliver)
qed

theorem nonempty_log_never_skipped_witness:
  "total_interactions (aggregate [''garbage\<newline>'']) = 0 \<and>
   outcome (send_daily_report env_200 [LOG_FILE \<mapsto> ''garbage\<newline>'']) \<noteq> Inr SkippedNoLines \<and>
   HttpPut \<lparr>put_url = ''https://ntfy.sh/'' @ NTFY_TOPIC,
            put_data = render (aggregate [''garbage\<newline>'']) (now_report env_200),
            put_headers = [(''Filename'', get_report_title (now_title env_200))]\<rparr>
     \<in> set (events (send_daily_report env_200 [LOG_FILE \<mapsto> ''garbage\<newline>'']))"
proof -
  have z: "total_interactions (aggregate [''garbage\<newline>'']) = 0"
    by code_simp
  have h1: "[LOG_FILE \<mapsto> ''garbage\<newline>''] LOG_FILE \<noteq> None"
    by simp
  have h2: "read_log env_200 [LOG_FILE \<mapsto> ''garbage\<newline>''] = Inr [''garbage\<newline>'']"
    by (simp add: read_log_def env_200_def)
  have h3: "[''garbage\<newline>''] \<noteq> []"
    by simp
  have w: "write_report_error env_200 = None \<and> open_report_error env_200 = None"
    by (simp add: env_200_def)
  show ?thesis
    using nonempty_log_never_skipped [OF h1 h2 h3] z w by blast
qed

text \<open>
  C8. For every log content, response and behaviour of the file operations the
  function returns and no exception leaves it: an exception raised in the body ends
  the run in the handler, which logs it as an error; a body that returns is left as
  it is.
\<close>

theorem exceptions_caught_at_boundary:
  "(\<exists>p. outcome (send_daily_report e fs) = Inr p) \<and>
   (\<forall>ex. outcome (report_body e fs) = Inl ex \<longrightarrow>
      outcome (send_daily_report e fs) = Inr (Caught ex) \<and>
      messages (send_daily_report e fs) =
        messages (report_body e fs) @
          [(ERROR, ''Error while sending daily report: '' @ exception_str ex)]) \<and>
   (\<forall>p. outcome (report_body e fs) = Inr p \<longrightarrow> send_daily_report e fs = report_body e fs)"
  by (cases "outcome (report_body e fs)") (simp_all add: send_daily_report_def Let_def)

theorem exceptions_caught_at_boundary_witness:
  "outcome (report_body env_unreachable log_one) = Inl (RequestException ''Connection refused'') \<and>
   outcome (send_daily_report env_unreachable log_one) =
     Inr (Caught (RequestException ''Connection refused'')) \<and>
   messages (send_daily_report env_unreachable log_one) =
     [(ERROR, ''Error while sending daily report: Connection refused'')] \<and>
   files (send_daily_report env_unreachable log_one) LOG_FILE = log_one LOG_FILE"
proof -
  have rd: "read_log env_unreachable log_one = read_log env_200 log_one"
    by (simp add: read_log_def env_unreachable_def)
  have nn: "log_one LOG_FILE \<noteq> None"
    by (simp add: log_one_def)
  have b: "outcome (report_body env_unreachable log_one) = Inl (RequestException ''Connection refused'')"
    by (simp add: report_body_cases rd read_log_one nn deliver_def Let_def)
       (simp add: env_unreachable_def env_200_def)
  have m: "messages (report_body env_unreachable log_one) = []"
    by (simp add: report_body_cases rd read_log_one nn deliver_def Let_def)
       (simp add: env_unreachable_def env_200_def)
  have f: "files (send_daily_report env_unreachable log_one) LOG_FILE = log_one LOG_FILE"
    by (simp add: files_send_daily_report report_body_cases rd read_log_one nn log_after_deliver)
       (simp add: env_unreachable_def env_200_def)
  show ?thesis
    using exceptions_caught_at_boundary [of env_unreachable log_one] b m f
    by simp
qed

end
